theory Spec2Isabelle
  imports Main "HOL-Library.Sublist"
begin

section \<open>Python values\<close>

text \<open>
  A Python \<open>str\<close> is a sequence of Unicode code points, so it is modelled as a list
  of code points; \<open>str ''abc''\<close> is the literal. \<open>None\<close> is the \<open>None\<close> of
  an option type. Identifiers (\<open>uuid.uuid4()\<close>) are drawn from a counter kept in the
  session; only their freshness matters. A \<open>datetime\<close> is a point on a discrete
  clock, and every \<open>datetime.utcnow()\<close> of one call reads the same \<open>now\<close>.
\<close>

type_synonym codepoint = nat
type_synonym pystr = "codepoint list"
type_synonym ident = nat
type_synonym datetime = nat

definition ord :: "char \<Rightarrow> codepoint" where
  "ord c = of_char c"

definition str :: "string \<Rightarrow> pystr" where
  "str cs = map ord cs"

definition truthy :: "pystr option \<Rightarrow> bool" where
  \<comment> \<open>\<open>if x:\<close> for an optional string: neither \<open>None\<close> nor empty\<close>
  "truthy x = (case x of None \<Rightarrow> False | Some v \<Rightarrow> v \<noteq> [])"

definition dict_get :: "(pystr \<times> 'v option) list \<Rightarrow> pystr \<Rightarrow> 'v option \<Rightarrow> 'v option" where
  \<comment> \<open>\<open>d.get(k, default)\<close>: the default only when the key is absent\<close>
  "dict_get d k dflt = (case map_of d k of None \<Rightarrow> dflt | Some v \<Rightarrow> v)"

datatype error = TypeError | AttributeError | IntegrityError | ApiError | BadRequest

datatype 'a arg = Missing | Given 'a

section \<open>Phone-number normalisation (services/whatsapp\_service.py)\<close>

text \<open>
  \<open>str.isdigit\<close> is true of the ASCII digits and of further characters that the
  Unicode database marks as digits (superscript two, the Arabic-Indic digits, ...).
  That table is not part of the repository: it is the parameter \<open>unicode_digit\<close>,
  consulted outside ASCII only.
\<close>

definition isdigit :: "(codepoint \<Rightarrow> bool) \<Rightarrow> codepoint \<Rightarrow> bool" where
  "isdigit unicode_digit c =
     ((ord CHR ''0'' \<le> c \<and> c \<le> ord CHR ''9'') \<or> (128 \<le> c \<and> unicode_digit c))"

definition startswith :: "pystr \<Rightarrow> pystr \<Rightarrow> bool" where
  "startswith s p = (take (length p) s = p)"

definition format_phone_number :: "(codepoint \<Rightarrow> bool) \<Rightarrow> pystr \<Rightarrow> pystr" where
  "format_phone_number unicode_digit phone_number =
     (let cleaned = filter (isdigit unicode_digit) phone_number in
      if length cleaned = 10 \<and> startswith cleaned [ord CHR ''7''] then cleaned
      else if length cleaned = 10 then [ord CHR ''7''] @ cleaned
      else if length cleaned = 11 \<and> startswith cleaned [ord CHR ''8'']
        then [ord CHR ''7''] @ drop 1 cleaned
      else cleaned)"

definition validate_phone_number :: "(codepoint \<Rightarrow> bool) \<Rightarrow> pystr \<Rightarrow> bool" where
  "validate_phone_number unicode_digit phone_number =
     (let formatted = format_phone_number unicode_digit phone_number in
      length formatted \<ge> 10 \<and> formatted \<noteq> [] \<and> list_all (isdigit unicode_digit) formatted)"


section \<open>Webhook handshake (services/whatsapp\_service.py, routes/webhooks.py)\<close>

datatype body =
    Text pystr
  | JsonSuccess "nat option"
  | JsonMessage string
  | JsonError string

type_synonym response = "body \<times> nat"

definition verify_webhook ::
  "pystr option \<Rightarrow> pystr option \<Rightarrow> pystr option \<Rightarrow> pystr option \<Rightarrow> pystr option" where
  \<comment> \<open>\<open>verify_token\<close> is \<open>self.verify_token\<close>, read from the environment\<close>
  "verify_webhook verify_token mode token challenge =
     (if mode = Some (str ''subscribe'') \<and> token = verify_token then challenge else None)"

definition verify_whatsapp_webhook ::
  "pystr option \<Rightarrow> pystr option \<Rightarrow> pystr option \<Rightarrow> pystr option \<Rightarrow> response" where
  \<comment> \<open>the three query parameters are \<open>request.args.get(...)\<close>: \<open>None\<close> when absent\<close>
  "verify_whatsapp_webhook verify_token mode token challenge =
     (let result = verify_webhook verify_token mode token challenge in
      if truthy result then (Text (the result), 200)
      else (Text (str ''Verification failed''), 403))"

section \<open>Persisted entities (models/)\<close>

datatype chatbot_status = Draft | Active | Inactive | ChatbotError
datatype conversation_status = Open | Closed | Archived
datatype message_direction = Inbound | Outbound

record chatbot =
  cb_id :: ident
  cb_company_id :: ident
  cb_name :: pystr
  botpress_bot_id :: "pystr option"
  whatsapp_phone_number :: "pystr option"
  whatsapp_phone_number_id :: "pystr option"
  cb_status :: chatbot_status
  auto_response_enabled :: bool

text \<open>
  A column with a Python-side default (\<open>id\<close>, \<open>timestamp\<close>) is \<open>None\<close> on
  the object until the session flushes it; such columns are options. The JSON columns
  (tags, metadata) take no part in what follows and are left out.
\<close>

record conversation =
  conv_id :: "ident option"
  conv_chatbot_id :: ident
  customer_phone :: "pystr option"
  customer_name :: "pystr option"
  conv_status :: conversation_status
  started_at :: "datetime option"
  ended_at :: "datetime option"
  last_message_at :: "datetime option"
  message_count :: int
  conv_updated_at :: "datetime option"

record message =
  msg_id :: "ident option"
  conversation_id :: "ident option"
  whatsapp_message_id :: "pystr option"
  direction :: message_direction
  msg_type :: pystr
  content :: "pystr option"
  media_url :: "pystr option"
  media_type :: "pystr option"
  sender_phone :: "pystr option"
  sender_name :: "pystr option"
  timestamp :: "datetime option"
  delivered_at :: "datetime option"
  read_at :: "datetime option"
  failed_at :: "datetime option"
  msg_error_message :: "pystr option"

record webhook_event =
  we_id :: "ident option"
  we_chatbot_id :: "ident option"
  event_type :: "pystr option"
  source :: pystr
  payload :: pystr
  processed :: bool
  processed_at :: "datetime option"
  we_error_message :: "pystr option"
  retry_count :: int

record analytics_event =
  ae_company_id :: ident
  ae_event_name :: pystr
  ae_chatbot_id :: "ident option"

subsection \<open>The session\<close>

text \<open>
  The session is the working copy of the tables. \<open>db.session.add\<close> writes the row at
  once, with its identifier and defaults filled in; SQLAlchemy defers that INSERT to the
  next flush (every query and the commit flush first), and the object keeps its
  constructor-time attributes until then, which is what the code reads in the places
  marked below. Committing keeps the working copy, rolling back returns to the tables as
  they were when the request began. \<open>first()\<close> is the first matching row in table
  order.
\<close>

record session =
  chatbots :: "chatbot list"
  conversations :: "conversation list"
  messages :: "message list"
  webhook_events :: "webhook_event list"
  analytics_events :: "analytics_event list"
  next_id :: ident

fun update_first :: "('a \<Rightarrow> bool) \<Rightarrow> ('a \<Rightarrow> 'a) \<Rightarrow> 'a list \<Rightarrow> 'a list" where
  "update_first P f [] = []"
| "update_first P f (x # xs) = (if P x then f x # xs else x # update_first P f xs)"

definition default_to :: "'a \<Rightarrow> 'a option \<Rightarrow> 'a option" where
  "default_to d x = (case x of None \<Rightarrow> Some d | Some v \<Rightarrow> Some v)"

definition flush_conversation ::
  "datetime \<Rightarrow> session \<Rightarrow> conversation \<Rightarrow> error + conversation \<times> session" where
  \<comment> \<open>\<open>db.session.add(conversation); db.session.flush()\<close>; \<open>customer_phone\<close> is NOT NULL\<close>
  "flush_conversation now s c =
     (if customer_phone c = None then Inl IntegrityError
      else
        let c' = c\<lparr>conv_id := Some (next_id s),
                   started_at := default_to now (started_at c),
                   conv_updated_at := default_to now (conv_updated_at c)\<rparr>
        in Inr (c', s\<lparr>conversations := conversations s @ [c'], next_id := Suc (next_id s)\<rparr>))"

definition session_add_message :: "datetime \<Rightarrow> session \<Rightarrow> message \<Rightarrow> session" where
  "session_add_message now s m =
     s\<lparr>messages := messages s @
          [m\<lparr>msg_id := Some (next_id s), timestamp := default_to now (timestamp m)\<rparr>],
       next_id := Suc (next_id s)\<rparr>"

definition session_add_webhook_event :: "session \<Rightarrow> webhook_event \<Rightarrow> session" where
  "session_add_webhook_event s w =
     s\<lparr>webhook_events := webhook_events s @ [w\<lparr>we_id := Some (next_id s)\<rparr>],
       next_id := Suc (next_id s)\<rparr>"

subsection \<open>WebhookEvent (models/webhook.py)\<close>

definition WebhookEvent_init ::
  "pystr option arg \<Rightarrow> pystr arg \<Rightarrow> pystr arg \<Rightarrow> bool option \<Rightarrow> error + webhook_event" where
  \<comment> \<open>\<open>__init__(self, event_type, source, payload, **kwargs)\<close>: the three named
      parameters are required, and a call without one of them raises TypeError. Of the
      keywords the handlers pass, only \<open>processed\<close> is an attribute; \<open>hasattr\<close>
      skips the others (\<open>event_data\<close>, \<open>phone_number_id\<close>, \<open>bot_id\<close>).\<close>
  "WebhookEvent_init event_type_arg source_arg payload_arg kw_processed =
     (case (event_type_arg, source_arg, payload_arg) of
        (Given et, Given src, Given pl) \<Rightarrow>
          Inr \<lparr>we_id = None, we_chatbot_id = None, event_type = et, source = src,
               payload = pl,
               processed = (case kw_processed of None \<Rightarrow> False | Some b \<Rightarrow> b),
               processed_at = None, we_error_message = None, retry_count = 0\<rparr>
      | _ \<Rightarrow> Inl TypeError)"

definition mark_processed :: "datetime \<Rightarrow> webhook_event \<Rightarrow> webhook_event" where
  "mark_processed now w = w\<lparr>processed := True, processed_at := Some now\<rparr>"

definition WebhookEvent_mark_failed :: "pystr \<Rightarrow> webhook_event \<Rightarrow> webhook_event" where
  "WebhookEvent_mark_failed error_message w =
     w\<lparr>we_error_message := Some error_message, retry_count := retry_count w + 1\<rparr>"

definition can_retry :: "int \<Rightarrow> webhook_event \<Rightarrow> bool" where
  "can_retry max_retries w = (retry_count w < max_retries \<and> \<not> processed w)"

definition query_get_webhook_event :: "session \<Rightarrow> ident option \<Rightarrow> webhook_event option" where
  \<comment> \<open>\<open>WebhookEvent.query.get(webhook_event_id)\<close>; a \<open>None\<close> key loads nothing\<close>
  "query_get_webhook_event s webhook_event_id =
     (case webhook_event_id of
        None \<Rightarrow> None
      | Some i \<Rightarrow> find (\<lambda>w. we_id w = Some i) (webhook_events s))"

definition set_webhook_event_processed :: "datetime \<Rightarrow> session \<Rightarrow> ident option \<Rightarrow> session" where
  \<comment> \<open>the closing block of every processing function:
      \<open>if webhook_event: webhook_event.processed = True; processed_at = utcnow()\<close>\<close>
  "set_webhook_event_processed now s webhook_event_id =
     (case query_get_webhook_event s webhook_event_id of
        None \<Rightarrow> s
      | Some webhook_event \<Rightarrow>
          s\<lparr>webhook_events :=
               update_first (\<lambda>w. we_id w = we_id webhook_event)
                 (\<lambda>w. w\<lparr>processed := True, processed_at := Some now\<rparr>) (webhook_events s)\<rparr>)"

subsection \<open>Message and Conversation (models/conversation.py)\<close>

record message_data =
  md_direction :: message_direction
  md_type :: pystr
  md_content :: "pystr option"
  md_sender_phone :: "pystr option"
  md_sender_name :: "pystr option"
  md_whatsapp_message_id :: "pystr option"
  md_media_url :: "pystr option"
  md_media_type :: "pystr option"

definition Message_init :: "ident option \<Rightarrow> message_data \<Rightarrow> message" where
  \<comment> \<open>\<open>Message(conversation_id=..., **message_data)\<close>; nothing sets \<open>timestamp\<close>\<close>
  "Message_init conv md =
     \<lparr>msg_id = None, conversation_id = conv,
      whatsapp_message_id = md_whatsapp_message_id md,
      direction = md_direction md, msg_type = md_type md, content = md_content md,
      media_url = md_media_url md, media_type = md_media_type md,
      sender_phone = md_sender_phone md, sender_name = md_sender_name md,
      timestamp = None, delivered_at = None, read_at = None, failed_at = None,
      msg_error_message = None\<rparr>"

definition mark_delivered :: "datetime \<Rightarrow> message \<Rightarrow> message" where
  "mark_delivered now m = m\<lparr>delivered_at := Some now\<rparr>"

definition mark_read :: "datetime \<Rightarrow> message \<Rightarrow> message" where
  "mark_read now m = m\<lparr>read_at := Some now\<rparr>"

definition Message_mark_failed :: "datetime \<Rightarrow> pystr \<Rightarrow> message \<Rightarrow> message" where
  "Message_mark_failed now error_message m =
     m\<lparr>failed_at := Some now, msg_error_message := Some error_message\<rparr>"

definition Conversation_init ::
  "ident \<Rightarrow> pystr option \<Rightarrow> pystr option \<Rightarrow> conversation_status \<Rightarrow> datetime \<Rightarrow> datetime
     \<Rightarrow> conversation" where
  \<comment> \<open>\<open>Conversation(chatbot_id, customer_phone, customer_name=..., status=...,
      started_at=..., last_message_at=...)\<close>; \<open>message_count\<close> is the column default\<close>
  "Conversation_init chatbot_id phone name st started last_message =
     \<lparr>conv_id = None, conv_chatbot_id = chatbot_id, customer_phone = phone,
      customer_name = name, conv_status = st, started_at = Some started, ended_at = None,
      last_message_at = Some last_message, message_count = 0, conv_updated_at = None\<rparr>"

definition add_message ::
  "datetime \<Rightarrow> session \<Rightarrow> conversation \<Rightarrow> message_data \<Rightarrow> message \<times> session" where
  \<comment> \<open>\<open>self\<close> is the session's row with this identifier; \<open>message.timestamp\<close> is read
      before any flush\<close>
  "add_message now s self md =
     (let message = Message_init (conv_id self) md;
          s1 = session_add_message now s message;
          s2 = s1\<lparr>conversations :=
                   update_first (\<lambda>c. conv_id c = conv_id self)
                     (\<lambda>c. c\<lparr>message_count := message_count c + 1,
                             last_message_at := timestamp message,
                             conv_updated_at := Some now\<rparr>)
                     (conversations s1)\<rparr>
      in (message, s2))"


definition reopen :: "datetime \<Rightarrow> conversation \<Rightarrow> conversation" where
  "reopen now c = c\<lparr>conv_status := Open, ended_at := None, conv_updated_at := Some now\<rparr>"

definition archive :: "datetime \<Rightarrow> conversation \<Rightarrow> conversation" where
  "archive now c = c\<lparr>conv_status := Archived, conv_updated_at := Some now\<rparr>"

definition track_event :: "session \<Rightarrow> ident \<Rightarrow> pystr \<Rightarrow> ident option \<Rightarrow> session" where
  \<comment> \<open>\<open>AnalyticsEvent.track_event\<close>; the \<open>event_data\<close> document is left out\<close>
  "track_event s company_id event_name chatbot_id =
     s\<lparr>analytics_events := analytics_events s @
          [\<lparr>ae_company_id = company_id, ae_event_name = event_name,
            ae_chatbot_id = chatbot_id\<rparr>]\<rparr>"

section \<open>Conversation routes (models/user.py, routes/conversations.py)\<close>

record user =
  usr_id :: ident
  usr_email :: pystr



section \<open>Webhook routes (routes/webhooks.py)\<close>

subsection \<open>What lies outside the repository\<close>

text \<open>
  The HTTP calls to the two providers, \<open>json.dumps\<close>, \<open>str.upper\<close> and HMAC-SHA256
  are library code or remote services. Each is a field of the environment: a call to a
  provider answers with a value or raises. \<open>bp_create_conversation\<close> stands for the
  call together with the read of \<open>['conversation']['id']\<close> from its answer, and
  \<open>wa_send_text_message\<close> for the call together with the read of
  \<open>['messages'][0]['id']\<close>; both reads sit in the same \<open>try\<close> block as the call.
\<close>

record botpress_message =
  bm_type :: pystr
  bm_text :: "pystr option"
  bm_userId :: "pystr option"

record env =
  json_dumps :: "(pystr \<times> pystr option) list \<Rightarrow> pystr"
  upper :: "pystr \<Rightarrow> pystr"
  hmac_sha256_hexdigest :: "pystr \<Rightarrow> pystr \<Rightarrow> pystr"
  bp_create_conversation :: "pystr option \<Rightarrow> pystr option \<Rightarrow> error + pystr option"
  bp_send_message :: "pystr option \<Rightarrow> pystr option \<Rightarrow> botpress_message \<Rightarrow> error + unit"
  wa_mark_message_as_read :: "pystr option \<Rightarrow> pystr option \<Rightarrow> error + unit"
  wa_send_text_message :: "pystr option \<Rightarrow> pystr \<Rightarrow> pystr \<Rightarrow> error + pystr option"

subsection \<open>Inbound-channel events\<close>

text \<open>
  An event is the dictionary that \<open>WhatsAppService.process_webhook_event\<close> builds for
  one message or one status of the provider's envelope; the handler is modelled from the
  point where \<open>events\<close> is bound. A key that the provider left out is \<open>None\<close>.
  The provider always names a message's type, and the content of a message is a
  dictionary of strings.
\<close>

record wa_event =
  ev_type :: pystr
  ev_message_id :: "pystr option"
  ev_from :: "pystr option"
  ev_message_type :: pystr
  ev_content :: "(pystr \<times> pystr option) list"
  ev_phone_number_id :: "pystr option"
  ev_status :: "pystr option"

definition forward_to_botpress :: "env \<Rightarrow> chatbot \<Rightarrow> wa_event \<Rightarrow> error + unit" where
  \<comment> \<open>the body of the \<open>try\<close> under "Forward message to Botpress if configured"\<close>
  "forward_to_botpress e chatbot event =
     (case bp_create_conversation e (botpress_bot_id chatbot) (ev_from event) of
        Inl err \<Rightarrow> Inl err
      | Inr botpress_conversation_id \<Rightarrow>
          bp_send_message e (botpress_bot_id chatbot) botpress_conversation_id
            \<lparr>bm_type = str ''text'',
             bm_text =
               (if ev_message_type event = str ''text''
                then dict_get (ev_content event) (str ''text'') (Some [])
                else Some (str ''['' @ upper e (ev_message_type event)
                             @ str ''] message received'')),
             bm_userId = ev_from event\<rparr>)"

definition find_or_create_conversation ::
  "datetime \<Rightarrow> session \<Rightarrow> chatbot \<Rightarrow> pystr option \<Rightarrow> error + conversation \<times> session" where
  \<comment> \<open>the block "Find or create conversation"; a new conversation is flushed, and
      \<open>conversation_started\<close> is tracked\<close>
  "find_or_create_conversation now s chatbot customer =
     (case find (\<lambda>c. conv_chatbot_id c = cb_id chatbot \<and> customer_phone c = customer
                       \<and> conv_status c = Open) (conversations s) of
        Some conversation \<Rightarrow> Inr (conversation, s)
      | None \<Rightarrow>
         (case flush_conversation now s
                 (Conversation_init (cb_id chatbot) customer customer Open now now) of
            Inl err \<Rightarrow> Inl err
          | Inr (conversation, s1) \<Rightarrow>
              Inr (conversation,
                   track_event s1 (cb_company_id chatbot) (str ''conversation_started'')
                     (Some (cb_id chatbot)))))"

definition inbound_message_data :: "env \<Rightarrow> wa_event \<Rightarrow> message_data" where
  \<comment> \<open>the dictionary \<open>message_data\<close> under "Create message record"\<close>
  "inbound_message_data e event =
     (let customer = ev_from event;
          message_content = ev_content event;
          message_type = ev_message_type event
      in
      \<lparr>md_direction = Inbound,
       md_type = message_type,
       md_content =
         (if message_type = str ''text''
          then dict_get message_content (str ''text'') (Some [])
          else Some (json_dumps e message_content)),
       md_sender_phone = customer,
       md_sender_name = customer,
       md_whatsapp_message_id = ev_message_id event,
       md_media_url =
         (if message_type \<noteq> str ''text''
          then dict_get message_content (str ''media_id'') None else None),
       md_media_type =
         (if message_type \<noteq> str ''text''
          then dict_get message_content (str ''mime_type'') None else None)\<rparr>)"

definition await_process_whatsapp_message ::
  "env \<Rightarrow> datetime \<Rightarrow> session \<Rightarrow> wa_event \<Rightarrow> ident option \<Rightarrow> error + session" where
  \<comment> \<open>an exception of the two inner \<open>try\<close> blocks is logged and dropped; any other
      is re-raised to the caller (\<open>Inl\<close>)\<close>
  "await_process_whatsapp_message e now s event webhook_event_id =
     (let phone_number_id = ev_phone_number_id event;
          customer = ev_from event
      in
      case find (\<lambda>b. whatsapp_phone_number_id b = phone_number_id \<and> cb_status b = Active)
             (chatbots s) of
        None \<Rightarrow> Inr s
      | Some chatbot \<Rightarrow>
         (case find_or_create_conversation now s chatbot customer of
            Inl err \<Rightarrow> Inl err
          | Inr (conversation, s2) \<Rightarrow>
             (let (message, s3) =
                    add_message now s2 conversation (inbound_message_data e event);
                  s4 = track_event s3 (cb_company_id chatbot) (str ''message_received'')
                         (Some (cb_id chatbot));
                  s5 = (if truthy (botpress_bot_id chatbot) \<and> auto_response_enabled chatbot
                        then (case forward_to_botpress e chatbot event of
                                Inl err \<Rightarrow> s4
                              | Inr u \<Rightarrow> s4)
                        else s4);
                  s6 = (case wa_mark_message_as_read e phone_number_id (ev_message_id event) of
                          Inl err \<Rightarrow> s5
                        | Inr u \<Rightarrow> s5)
              in Inr (set_webhook_event_processed now s6 webhook_event_id))))"

definition update_message_status :: "datetime \<Rightarrow> pystr option \<Rightarrow> message \<Rightarrow> message" where
  \<comment> \<open>the \<open>if\<close>/\<open>elif\<close> chain under "Update message status". No event carries an
      \<open>error\<close> key, so the text of a failure is the default\<close>
  "update_message_status now status m =
     (if status = Some (str ''sent'') then mark_delivered now m
      else if status = Some (str ''delivered'') then mark_delivered now m
      else if status = Some (str ''read'') then mark_read now m
      else if status = Some (str ''failed'') then Message_mark_failed now (str ''Unknown error'') m
      else m)"

definition await_process_whatsapp_status ::
  "datetime \<Rightarrow> session \<Rightarrow> wa_event \<Rightarrow> ident option \<Rightarrow> error + session" where
  "await_process_whatsapp_status now s event webhook_event_id =
     (let message_id = ev_message_id event;
          status = ev_status event;
          s1 = (case find (\<lambda>m. whatsapp_message_id m = message_id) (messages s) of
                  None \<Rightarrow> s
                | Some message \<Rightarrow>
                    s\<lparr>messages :=
                         update_first (\<lambda>m. whatsapp_message_id m = message_id)
                           (update_message_status now status) (messages s)\<rparr>)
      in Inr (set_webhook_event_processed now s1 webhook_event_id))"

definition whatsapp_event_step ::
  "env \<Rightarrow> datetime \<Rightarrow> session \<Rightarrow> wa_event \<Rightarrow> error + session" where
  \<comment> \<open>the body of the \<open>for event in events\<close> loop. The call of \<open>WebhookEvent\<close>
      gives no \<open>payload\<close>. \<open>webhook_event.id\<close> is read with no flush since the
      \<open>add\<close>\<close>
  "whatsapp_event_step e now s event =
     (case WebhookEvent_init (Given (Some (ev_type event))) (Given (str ''whatsapp'')) Missing
             (Some False) of
        Inl err \<Rightarrow> Inl err
      | Inr webhook_event \<Rightarrow>
         (let s1 = session_add_webhook_event s webhook_event in
          if ev_type event = str ''message_received''
          then await_process_whatsapp_message e now s1 event (we_id webhook_event)
          else if ev_type event = str ''message_status''
          then await_process_whatsapp_status now s1 event (we_id webhook_event)
          else Inr s1))"

fun process_whatsapp_events ::
  "env \<Rightarrow> datetime \<Rightarrow> session \<Rightarrow> wa_event list \<Rightarrow> error + session" where
  \<comment> \<open>the loop: the first exception ends it\<close>
  "process_whatsapp_events e now s [] = Inr s"
| "process_whatsapp_events e now s (event # events) =
     (case whatsapp_event_step e now s event of
        Inl err \<Rightarrow> Inl err
      | Inr s2 \<Rightarrow> process_whatsapp_events e now s2 events)"

definition handle_whatsapp_webhook ::
  "env \<Rightarrow> datetime \<Rightarrow> session \<Rightarrow> error + wa_event list \<Rightarrow> response \<times> session" where
  \<comment> \<open>\<open>parsed\<close> is the outcome of \<open>request.get_json()\<close> followed by
      \<open>process_webhook_event\<close>: the list \<open>events\<close>, or the exception that one of the
      two raised. Success commits the session; an exception rolls it back\<close>
  "handle_whatsapp_webhook e now db parsed =
     (case parsed of
        Inl err \<Rightarrow> ((JsonError ''Webhook processing failed'', 500), db)
      | Inr events \<Rightarrow>
         (case process_whatsapp_events e now db events of
            Inr s \<Rightarrow> ((JsonSuccess (Some (length events)), 200), s)
          | Inl err \<Rightarrow> ((JsonError ''Webhook processing failed'', 500), db)))"

subsection \<open>Bot-backend events\<close>

definition compare_digest :: "pystr \<Rightarrow> pystr \<Rightarrow> error + bool" where
  \<comment> \<open>\<open>hmac.compare_digest\<close> on two \<open>str\<close>: both must be ASCII, else TypeError\<close>
  "compare_digest a b =
     (if list_all (\<lambda>c. c < 128) a \<and> list_all (\<lambda>c. c < 128) b then Inr (a = b)
      else Inl TypeError)"

definition validate_webhook_signature :: "env \<Rightarrow> pystr \<Rightarrow> pystr \<Rightarrow> pystr \<Rightarrow> error + bool" where
  "validate_webhook_signature e pl signature secret =
     (let expected_signature = hmac_sha256_hexdigest e secret pl
      in compare_digest signature (str ''sha256='' @ expected_signature))"

text \<open>
  The body of a bot-backend delivery: the keys \<open>type\<close>, \<open>botId\<close>,
  \<open>conversationId\<close> and \<open>userId\<close>, \<open>None\<close> when absent, and the outcome of
  reading the text at \<open>['payload']['text']\<close>: the text, \<open>None\<close> when one of the two
  keys is absent, or AttributeError when \<open>payload\<close> is present and no object.
\<close>

record bp_webhook_data =
  wd_type :: "pystr option"
  wd_botId :: "pystr option"
  wd_conversationId :: "pystr option"
  wd_payload_text :: "error + pystr option"
  wd_userId :: "pystr option"

record bp_event =
  bp_event_type :: "pystr option"
  bp_bot_id :: "pystr option"
  bp_conversation_id :: "pystr option"
  bp_data :: bp_webhook_data

definition process_webhook_event :: "bp_webhook_data option \<Rightarrow> error + bp_event" where
  \<comment> \<open>\<open>BotpressService.process_webhook_event\<close>. \<open>None\<close> is a body that is JSON but no
      object: it has no \<open>get\<close>\<close>
  "process_webhook_event body =
     (case body of
        None \<Rightarrow> Inl AttributeError
      | Some event_data \<Rightarrow>
          Inr \<lparr>bp_event_type = wd_type event_data, bp_bot_id = wd_botId event_data,
               bp_conversation_id = wd_conversationId event_data, bp_data = event_data\<rparr>)"

definition await_process_botpress_message ::
  "env \<Rightarrow> datetime \<Rightarrow> session \<Rightarrow> bp_event \<Rightarrow> ident option \<Rightarrow> error + session" where
  \<comment> \<open>an exception of the inner \<open>try\<close> block is logged and dropped; any other is
      re-raised to the caller (\<open>Inl\<close>)\<close>
  "await_process_botpress_message e now s event webhook_event_id =
     (let bot_id = bp_bot_id event;
          message_data = bp_data event
      in
      case find (\<lambda>b. botpress_bot_id b = bot_id \<and> cb_status b = Active) (chatbots s) of
        None \<Rightarrow> Inr s
      | Some chatbot \<Rightarrow>
         (case wd_payload_text message_data of
            Inl err \<Rightarrow> Inl err
          | Inr payload_text \<Rightarrow>
             (let message_text = default_to [] payload_text;
                  user_id = default_to [] (wd_userId message_data)
              in
              if \<not> truthy message_text \<or> \<not> truthy user_id then Inr s
              else
                (case find (\<lambda>c. conv_chatbot_id c = cb_id chatbot
                                  \<and> customer_phone c = user_id
                                  \<and> conv_status c = Open) (conversations s) of
                   None \<Rightarrow> Inr s
                 | Some conversation \<Rightarrow>
                    (let s1 =
                       (if truthy (whatsapp_phone_number_id chatbot)
                        then
                          (case wa_send_text_message e (whatsapp_phone_number_id chatbot)
                                  (the user_id) (the message_text) of
                             Inl err \<Rightarrow> s
                           | Inr whatsapp_id \<Rightarrow>
                              (let (message, s') =
                                     add_message now s conversation
                                       \<lparr>md_direction = Outbound, md_type = str ''text'',
                                        md_content = message_text,
                                        md_sender_phone = whatsapp_phone_number chatbot,
                                        md_sender_name = Some (cb_name chatbot),
                                        md_whatsapp_message_id = whatsapp_id,
                                        md_media_url = None, md_media_type = None\<rparr>
                               in track_event s' (cb_company_id chatbot)
                                    (str ''message_sent'') (Some (cb_id chatbot))))
                        else s)
                     in Inr (set_webhook_event_processed now s1 webhook_event_id))))))"

definition await_process_botpress_conversation_started ::
  "datetime \<Rightarrow> session \<Rightarrow> bp_event \<Rightarrow> ident option \<Rightarrow> error + session" where
  "await_process_botpress_conversation_started now s event webhook_event_id =
     Inr (set_webhook_event_processed now s webhook_event_id)"

definition await_process_botpress_conversation_ended ::
  "datetime \<Rightarrow> session \<Rightarrow> bp_event \<Rightarrow> ident option \<Rightarrow> error + session" where
  "await_process_botpress_conversation_ended now s event webhook_event_id =
     Inr (set_webhook_event_processed now s webhook_event_id)"

definition record_and_process_botpress ::
  "env \<Rightarrow> datetime \<Rightarrow> session \<Rightarrow> bp_webhook_data option \<Rightarrow> error + session" where
  \<comment> \<open>from "Process webhook event" to the commit. The call of \<open>WebhookEvent\<close> gives no
      \<open>payload\<close>. Here the session is flushed before \<open>webhook_event.id\<close> is read\<close>
  "record_and_process_botpress e now s webhook_data =
     (case process_webhook_event webhook_data of
        Inl err \<Rightarrow> Inl err
      | Inr processed_event \<Rightarrow>
         (case WebhookEvent_init (Given (bp_event_type processed_event))
                 (Given (str ''botpress'')) Missing (Some False) of
            Inl err \<Rightarrow> Inl err
          | Inr webhook_event \<Rightarrow>
             (let flushed_id = Some (next_id s);
                  s1 = session_add_webhook_event s webhook_event
              in
              if bp_event_type processed_event = Some (str ''message_received'')
              then await_process_botpress_message e now s1 processed_event flushed_id
              else if bp_event_type processed_event = Some (str ''conversation_started'')
              then await_process_botpress_conversation_started now s1 processed_event
                     flushed_id
              else if bp_event_type processed_event = Some (str ''conversation_ended'')
              then await_process_botpress_conversation_ended now s1 processed_event
                     flushed_id
              else Inr s1)))"

definition handle_botpress_webhook ::
  "env \<Rightarrow> datetime \<Rightarrow> pystr option \<Rightarrow> session \<Rightarrow> pystr option \<Rightarrow> pystr
     \<Rightarrow> error + bp_webhook_data option \<Rightarrow> response \<times> session" where
  \<comment> \<open>\<open>webhook_secret\<close> is the configuration entry BOTPRESS\_WEBHOOK\_SECRET,
      \<open>signature\<close> the header X-Botpress-Signature, \<open>pl\<close> the text of the body and
      \<open>parsed\<close> the outcome of \<open>request.get_json()\<close>, the handler's first statement:
      the exception it raised, or the value it returned\<close>
  "handle_botpress_webhook e now webhook_secret db signature pl parsed =
     (case parsed of
        Inl err \<Rightarrow> ((JsonError ''Webhook processing failed'', 500), db)
      | Inr webhook_data \<Rightarrow>
         (case
            (if truthy signature then
               if truthy webhook_secret then
                 validate_webhook_signature e pl (the signature) (the webhook_secret)
               else Inr True
             else Inr True)
          of
            Inl err \<Rightarrow> ((JsonError ''Webhook processing failed'', 500), db)
          | Inr False \<Rightarrow> ((JsonError ''Invalid signature'', 403), db)
          | Inr True \<Rightarrow>
             (case record_and_process_botpress e now db webhook_data of
                Inr s \<Rightarrow> ((JsonSuccess None, 200), s)
              | Inl err \<Rightarrow> ((JsonError ''Webhook processing failed'', 500), db))))"

section \<open>Consistency of the message counter\<close>






section \<open>Concrete inputs\<close>

definition env0 :: env where
  \<comment> \<open>every remote call answers\<close>
  "env0 = \<lparr>json_dumps = (\<lambda>d. str ''{}''), upper = (\<lambda>x. x),
            hmac_sha256_hexdigest = (\<lambda>k m. str ''00ff''),
            bp_create_conversation = (\<lambda>b u. Inr (Some (str ''bpconv''))),
            bp_send_message = (\<lambda>b c m. Inr ()),
            wa_mark_message_as_read = (\<lambda>p m. Inr ()),
            wa_send_text_message = (\<lambda>p t m. Inr (Some (str ''wamid.out'')))\<rparr>"


definition chatbot0 :: chatbot where
  "chatbot0 = \<lparr>cb_id = 1, cb_company_id = 2, cb_name = str ''shop'',
                botpress_bot_id = Some (str ''bot''), whatsapp_phone_number = None,
                whatsapp_phone_number_id = Some (str ''pn1''), cb_status = Active,
                auto_response_enabled = True\<rparr>"

definition webhook_event0 :: webhook_event where
  "webhook_event0 = \<lparr>we_id = Some 7, we_chatbot_id = None,
                      event_type = Some (str ''message_received''), source = str ''whatsapp'',
                      payload = str ''{}'', processed = False, processed_at = None,
                      we_error_message = None, retry_count = 0\<rparr>"

definition db0 :: session where
  "db0 = \<lparr>chatbots = [chatbot0], conversations = [], messages = [],
          webhook_events = [webhook_event0], analytics_events = [], next_id = 10\<rparr>"

definition event0 :: wa_event where
  "event0 = \<lparr>ev_type = str ''message_received'', ev_message_id = Some (str ''wamid.1''),
              ev_from = Some (str ''77010000000''), ev_message_type = str ''text'',
              ev_content = [(str ''text'', Some (str ''Hello''))],
              ev_phone_number_id = Some (str ''pn1''), ev_status = None\<rparr>"

definition message0 :: message where
  "message0 = \<lparr>msg_id = Some 5, conversation_id = Some 4,
                whatsapp_message_id = Some (str ''wamid.out''), direction = Outbound,
                msg_type = str ''text'', content = Some (str ''Hi''), media_url = None,
                media_type = None, sender_phone = None, sender_name = None,
                timestamp = Some 1, delivered_at = Some 2, read_at = Some 3,
                failed_at = None, msg_error_message = None\<rparr>"

definition conversation0 :: conversation where
  "conversation0 = \<lparr>conv_id = Some 4, conv_chatbot_id = 1,
                     customer_phone = Some (str ''77010000000''), customer_name = None,
                     conv_status = Archived, started_at = Some 1, ended_at = Some 3,
                     last_message_at = None, message_count = 1, conv_updated_at = Some 3\<rparr>"

definition db1 :: session where
  "db1 = \<lparr>chatbots = [chatbot0], conversations = [conversation0], messages = [message0],
          webhook_events = [webhook_event0], analytics_events = [], next_id = 10\<rparr>"

definition status_event0 :: wa_event where
  "status_event0 = \<lparr>ev_type = str ''message_status'', ev_message_id = Some (str ''wamid.out''),
                     ev_from = None, ev_message_type = str ''text'', ev_content = [],
                     ev_phone_number_id = Some (str ''pn1''),
                     ev_status = Some (str ''delivered'')\<rparr>"

definition bp_data0 :: bp_webhook_data where
  "bp_data0 = \<lparr>wd_type = Some (str ''message_received''), wd_botId = Some (str ''bot''),
                wd_conversationId = Some (str ''bpconv''), wd_payload_text = Inr (Some (str ''Hi'')),
                wd_userId = Some (str ''77010000000'')\<rparr>"

definition event1 :: wa_event where
  \<comment> \<open>a delivery whose external id is already on a persisted message of \<open>db1\<close>\<close>
  "event1 = event0\<lparr>ev_message_id := Some (str ''wamid.out'')\<rparr>"

definition after_first_delivery :: "error + session" where
  "after_first_delivery = await_process_whatsapp_message env0 1 db0 event0 (Some 7)"

definition after_redelivery :: "error + session" where
  "after_redelivery =
     (case after_first_delivery of
        Inl err \<Rightarrow> Inl err
      | Inr s1 \<Rightarrow> await_process_whatsapp_message env0 2 s1 event0 (Some 7))"


definition external_ids :: "error + session \<Rightarrow> pystr option list" where
  "external_ids r = (case r of Inl err \<Rightarrow> [] | Inr s \<Rightarrow> map whatsapp_message_id (messages s))"



section \<open>Lists, strings\<close>


lemma str_eq_iff [simp]: "(str a = str b) = (a = b)"
proof -
  have "inj ord" by (rule injI) (simp add: ord_def)
  then show ?thesis by (simp add: str_def inj_map_eq_map)
qed

lemma str_Nil_iff [simp]: "(str a = []) = (a = [])" "([] = str a) = (a = [])"
  by (auto simp: str_def)

lemma find_update_first:
  "(\<And>x. P x \<Longrightarrow> P (f x)) \<Longrightarrow> find P (update_first P f xs) = map_option f (find P xs)"
  by (induction xs) auto

lemma update_first_no_match:
  "find P xs = None \<Longrightarrow> update_first P f xs = xs"
  by (induction xs) (auto split: if_splits)

lemma length_update_first [simp]: "length (update_first P f xs) = length xs"
  by (induction xs) auto




lemma sum_case_const: "(case x of Inl a \<Rightarrow> c | Inr b \<Rightarrow> c) = c"
  by (cases x) simp_all

section \<open>Phone-number normalisation\<close>

lemma isdigit_seven: "isdigit ud (ord CHR ''7'')"
  by (simp add: isdigit_def ord_def)

lemma seven_not_eight: "ord CHR ''7'' \<noteq> ord CHR ''8''"
  by (simp add: ord_def)

lemma format_phone_number_digits:
  "list_all (isdigit ud) (format_phone_number ud x)"
proof -
  have c: "list_all (isdigit ud) (filter (isdigit ud) x)"
    by (simp add: list_all_iff)
  then have d: "list_all (isdigit ud) (drop 1 (filter (isdigit ud) x))"
    by (auto simp: list_all_iff dest: in_set_dropD)
  show ?thesis
    using c d by (simp add: format_phone_number_def Let_def isdigit_seven)
qed

lemma filter_format_phone_number:
  "filter (isdigit ud) (format_phone_number ud x) = format_phone_number ud x"
  using format_phone_number_digits [of ud x] by (simp add: list_all_iff)

lemma format_phone_number_fixed:
  assumes "filter (isdigit ud) y = y"
    and "length y = 10 \<longrightarrow> startswith y [ord CHR ''7'']"
    and "length y = 11 \<longrightarrow> \<not> startswith y [ord CHR ''8'']"
  shows "format_phone_number ud y = y"
  using assms by (auto simp: format_phone_number_def Let_def)

lemma format_phone_number_idem:
  "format_phone_number ud (format_phone_number ud x) = format_phone_number ud x"
proof (rule format_phone_number_fixed)
  show "filter (isdigit ud) (format_phone_number ud x) = format_phone_number ud x"
    by (rule filter_format_phone_number)
next
  show "length (format_phone_number ud x) = 10 \<longrightarrow>
        startswith (format_phone_number ud x) [ord CHR ''7'']"
    by (auto simp: format_phone_number_def Let_def startswith_def)
next
  show "length (format_phone_number ud x) = 11 \<longrightarrow>
        \<not> startswith (format_phone_number ud x) [ord CHR ''8'']"
    using seven_not_eight
    by (auto simp: format_phone_number_def Let_def startswith_def)
qed


text \<open>
  Claim C9. Phone-number normalisation is a total function of the input string that
  keeps the digit characters only, applies the country-code rule (a ten-digit number
  not starting with 7 gets a leading 7, an eleven-digit number starting with 8 has the
  8 replaced by 7), yields digits only, and is idempotent.
\<close>

theorem format_phone_number_normalises:
  "format_phone_number ud (format_phone_number ud x) = format_phone_number ud x
   \<and> list_all (isdigit ud) (format_phone_number ud x)
   \<and> format_phone_number ud x = format_phone_number ud (filter (isdigit ud) x)
   \<and> format_phone_number ud x =
       (let cleaned = filter (isdigit ud) x in
        if length cleaned = 10 \<and> \<not> startswith cleaned [ord CHR ''7'']
          then ord CHR ''7'' # cleaned
        else if length cleaned = 11 \<and> startswith cleaned [ord CHR ''8'']
          then ord CHR ''7'' # drop 1 cleaned
        else cleaned)"
proof -
  have "format_phone_number ud x = format_phone_number ud (filter (isdigit ud) x)"
    by (simp add: format_phone_number_def)
  moreover have "format_phone_number ud x =
       (let cleaned = filter (isdigit ud) x in
        if length cleaned = 10 \<and> \<not> startswith cleaned [ord CHR ''7'']
          then ord CHR ''7'' # cleaned
        else if length cleaned = 11 \<and> startswith cleaned [ord CHR ''8'']
          then ord CHR ''7'' # drop 1 cleaned
        else cleaned)"
    by (simp add: format_phone_number_def Let_def)
  ultimately show ?thesis
    using format_phone_number_idem [of ud x] format_phone_number_digits [of ud x]
    by blast
qed

section \<open>Webhook handshake\<close>

text \<open>
  Claim C7, as the code has it. The handshake answers 200 with the literal challenge
  exactly when the mode is \<open>subscribe\<close>, the token equals the configured verify token
  and the challenge parameter is present and not empty; in every other case it answers
  403.
\<close>

theorem verify_whatsapp_webhook_handshake:
  "verify_whatsapp_webhook verify_token mode token challenge =
     (case challenge of
        None \<Rightarrow> (Text (str ''Verification failed''), 403)
      | Some c \<Rightarrow>
          if mode = Some (str ''subscribe'') \<and> token = verify_token \<and> c \<noteq> []
          then (Text c, 200)
          else (Text (str ''Verification failed''), 403))"
  by (simp add: verify_whatsapp_webhook_def verify_webhook_def truthy_def
           split: option.splits)

text \<open>
  Claim C7 as stated fails: with the right mode and the right token, an empty challenge
  is answered with 403.
\<close>

theorem verify_whatsapp_webhook_empty_challenge:
  "verify_whatsapp_webhook (Some (str ''tok'')) (Some (str ''subscribe''))
     (Some (str ''tok'')) (Some []) = (Text (str ''Verification failed''), 403)"
  by (simp add: verify_whatsapp_webhook_def verify_webhook_def truthy_def)

section \<open>Delivery status\<close>

lemma update_message_status_keeps_id:
  "whatsapp_message_id (update_message_status now st m) = whatsapp_message_id m"
  by (simp add: update_message_status_def mark_delivered_def mark_read_def
        Message_mark_failed_def)


lemma await_process_whatsapp_status_result:
  "await_process_whatsapp_status now s event wid
     = Inr (set_webhook_event_processed now
              (s\<lparr>messages :=
                   update_first (\<lambda>m. whatsapp_message_id m = ev_message_id event)
                     (update_message_status now (ev_status event)) (messages s)\<rparr>) wid)"
proof (cases "find (\<lambda>m. whatsapp_message_id m = ev_message_id event) (messages s)")
  case None
  then show ?thesis
    by (simp add: await_process_whatsapp_status_def Let_def update_first_no_match)
next
  case (Some m)
  then show ?thesis
    by (simp add: await_process_whatsapp_status_def Let_def)
qed

lemma set_webhook_event_processed_messages:
  "messages (set_webhook_event_processed now s wid) = messages s"
  by (simp add: set_webhook_event_processed_def split: option.splits)

lemma find_after_status_update:
  "find (\<lambda>m. whatsapp_message_id m = k)
     (update_first (\<lambda>m. whatsapp_message_id m = k) (update_message_status now st) ms)
   = map_option (update_message_status now st) (find (\<lambda>m. whatsapp_message_id m = k) ms)"
  by (rule find_update_first) (simp add: update_message_status_keeps_id)

lemma update_message_status_cases:
  "update_message_status now st =
     (\<lambda>m. if st = Some (str ''sent'') \<or> st = Some (str ''delivered'')
            then m\<lparr>delivered_at := Some now\<rparr>
          else if st = Some (str ''read'') then m\<lparr>read_at := Some now\<rparr>
          else if st = Some (str ''failed'')
            then m\<lparr>failed_at := Some now, msg_error_message := Some (str ''Unknown error'')\<rparr>
          else m)"
  by (rule ext)
     (simp add: update_message_status_def mark_delivered_def mark_read_def
        Message_mark_failed_def)

lemma update_message_status_delivered:
  "update_message_status now (Some (str ''sent'')) = (\<lambda>m. m\<lparr>delivered_at := Some now\<rparr>)"
  "update_message_status now (Some (str ''delivered'')) = (\<lambda>m. m\<lparr>delivered_at := Some now\<rparr>)"
  "update_message_status now (Some (str ''read'')) = (\<lambda>m. m\<lparr>read_at := Some now\<rparr>)"
  by (simp_all add: update_message_status_cases)

text \<open>
  Claim C10. A status callback \<open>sent\<close> has the effect of a callback \<open>delivered\<close>. Each
  makes the handler replace the stored Message that carries the callback's external
  message id (the first one in table order) by a copy whose \<open>delivered_at\<close> is the
  current time, and changes no other field and no other Message; nothing records that
  the callback said \<open>sent\<close>. A callback \<open>read\<close> sets \<open>read_at\<close> on that Message in
  the same way and leaves \<open>delivered_at\<close> as it was. The Message looked up by the
  external id after the handler has run is the one looked up before, with that field
  set. Marking the WebhookEvent processed leaves the Messages alone.
\<close>

theorem sent_is_delivered:
  "await_process_whatsapp_status now s (event\<lparr>ev_status := Some (str ''sent'')\<rparr>) wid
     = Inr (set_webhook_event_processed now
              (s\<lparr>messages :=
                   update_first (\<lambda>m. whatsapp_message_id m = ev_message_id event)
                     (\<lambda>m. m\<lparr>delivered_at := Some now\<rparr>) (messages s)\<rparr>) wid)
   \<and> await_process_whatsapp_status now s (event\<lparr>ev_status := Some (str ''delivered'')\<rparr>) wid
     = Inr (set_webhook_event_processed now
              (s\<lparr>messages :=
                   update_first (\<lambda>m. whatsapp_message_id m = ev_message_id event)
                     (\<lambda>m. m\<lparr>delivered_at := Some now\<rparr>) (messages s)\<rparr>) wid)
   \<and> await_process_whatsapp_status now s (event\<lparr>ev_status := Some (str ''read'')\<rparr>) wid
     = Inr (set_webhook_event_processed now
              (s\<lparr>messages :=
                   update_first (\<lambda>m. whatsapp_message_id m = ev_message_id event)
                     (\<lambda>m. m\<lparr>read_at := Some now\<rparr>) (messages s)\<rparr>) wid)
   \<and> find (\<lambda>m. whatsapp_message_id m = ev_message_id event)
       (update_first (\<lambda>m. whatsapp_message_id m = ev_message_id event)
          (\<lambda>m. m\<lparr>delivered_at := Some now\<rparr>) (messages s))
     = map_option (\<lambda>m. m\<lparr>delivered_at := Some now\<rparr>)
         (find (\<lambda>m. whatsapp_message_id m = ev_message_id event) (messages s))
   \<and> find (\<lambda>m. whatsapp_message_id m = ev_message_id event)
       (update_first (\<lambda>m. whatsapp_message_id m = ev_message_id event)
          (\<lambda>m. m\<lparr>read_at := Some now\<rparr>) (messages s))
     = map_option (\<lambda>m. m\<lparr>read_at := Some now\<rparr>)
         (find (\<lambda>m. whatsapp_message_id m = ev_message_id event) (messages s))
   \<and> messages (set_webhook_event_processed now s wid) = messages s"
proof -
  have a: "find (\<lambda>m. whatsapp_message_id m = ev_message_id event)
       (update_first (\<lambda>m. whatsapp_message_id m = ev_message_id event)
          (\<lambda>m. m\<lparr>delivered_at := Some now\<rparr>) (messages s))
     = map_option (\<lambda>m. m\<lparr>delivered_at := Some now\<rparr>)
         (find (\<lambda>m. whatsapp_message_id m = ev_message_id event) (messages s))"
    by (rule find_update_first) simp
  have b: "find (\<lambda>m. whatsapp_message_id m = ev_message_id event)
       (update_first (\<lambda>m. whatsapp_message_id m = ev_message_id event)
          (\<lambda>m. m\<lparr>read_at := Some now\<rparr>) (messages s))
     = map_option (\<lambda>m. m\<lparr>read_at := Some now\<rparr>)
         (find (\<lambda>m. whatsapp_message_id m = ev_message_id event) (messages s))"
    by (rule find_update_first) simp
  show ?thesis
    by (simp add: a b await_process_whatsapp_status_result update_message_status_delivered
          set_webhook_event_processed_messages)
qed

text \<open>
  Claim C2, as the code has it. A status callback is applied to the stored Message that
  carries its external message id (the first one in table order) whatever state that
  Message is in; nothing reads \<open>delivered_at\<close>, \<open>read_at\<close> or \<open>failed_at\<close> before
  writing. \<open>sent\<close> and \<open>delivered\<close> set \<open>delivered_at\<close> to the current time,
  \<open>read\<close> sets \<open>read_at\<close>, \<open>failed\<close> sets \<open>failed_at\<close> and replaces the error text
  by \<open>Unknown error\<close>, and any other status changes nothing; every other field and
  every other Message stay as they were. So a callback \<open>delivered\<close> for a Message that
  was read is applied, not dropped: \<open>delivered_at\<close> is overwritten and \<open>read_at\<close>
  stays set. A Message in the failed state is changed by later callbacks in the same
  way.
\<close>

theorem status_callback_is_unguarded:
  "await_process_whatsapp_status now s event wid
     = Inr (set_webhook_event_processed now
              (s\<lparr>messages :=
                   update_first (\<lambda>m. whatsapp_message_id m = ev_message_id event)
                     (\<lambda>m. if ev_status event = Some (str ''sent'')
                               \<or> ev_status event = Some (str ''delivered'')
                            then m\<lparr>delivered_at := Some now\<rparr>
                          else if ev_status event = Some (str ''read'')
                            then m\<lparr>read_at := Some now\<rparr>
                          else if ev_status event = Some (str ''failed'')
                            then m\<lparr>failed_at := Some now,
                                   msg_error_message := Some (str ''Unknown error'')\<rparr>
                          else m)
                     (messages s)\<rparr>) wid)
   \<and> find (\<lambda>m. whatsapp_message_id m = ev_message_id event)
       (update_first (\<lambda>m. whatsapp_message_id m = ev_message_id event)
          (update_message_status now (ev_status event)) (messages s))
     = map_option
         (\<lambda>m. if ev_status event = Some (str ''sent'')
                   \<or> ev_status event = Some (str ''delivered'')
                then m\<lparr>delivered_at := Some now\<rparr>
              else if ev_status event = Some (str ''read'')
                then m\<lparr>read_at := Some now\<rparr>
              else if ev_status event = Some (str ''failed'')
                then m\<lparr>failed_at := Some now,
                       msg_error_message := Some (str ''Unknown error'')\<rparr>
              else m)
         (find (\<lambda>m. whatsapp_message_id m = ev_message_id event) (messages s))
   \<and> messages (set_webhook_event_processed now s wid) = messages s
   \<and> read_at (m\<lparr>delivered_at := Some now\<rparr>) = read_at m
   \<and> failed_at (m\<lparr>delivered_at := Some now\<rparr>) = failed_at m
   \<and> failed_at (m\<lparr>read_at := Some now\<rparr>) = failed_at m"
proof -
  have a: "find (\<lambda>m. whatsapp_message_id m = ev_message_id event)
       (update_first (\<lambda>m. whatsapp_message_id m = ev_message_id event)
          (update_message_status now (ev_status event)) (messages s))
     = map_option (update_message_status now (ev_status event))
         (find (\<lambda>m. whatsapp_message_id m = ev_message_id event) (messages s))"
    by (rule find_after_status_update)
  show ?thesis
    by (simp only: a await_process_whatsapp_status_result
          update_message_status_cases [symmetric] set_webhook_event_processed_messages)
       simp
qed

text \<open>
  Claim C2 as stated fails: a callback \<open>delivered\<close> changes a Message that is already
  in the failed state (it sets \<open>delivered_at\<close>), and on a read Message it moves
  \<open>delivered_at\<close> from 2 to 9.
\<close>

theorem status_callback_mutates_failed_message:
  "await_process_whatsapp_status 9 (db1\<lparr>messages := [message0\<lparr>failed_at := Some 4\<rparr>]\<rparr>)
     status_event0 None
   = Inr (db1\<lparr>messages := [message0\<lparr>failed_at := Some 4, delivered_at := Some 9\<rparr>]\<rparr>)
   \<and> message0\<lparr>failed_at := Some 4, delivered_at := Some 9\<rparr> \<noteq> message0\<lparr>failed_at := Some 4\<rparr>"
  by (simp add: await_process_whatsapp_status_def set_webhook_event_processed_def
        query_get_webhook_event_def Let_def db1_def status_event0_def message0_def
        update_message_status_def mark_delivered_def)

section \<open>Reopening a conversation\<close>


text \<open>
  Claim C8, as the code has it. \<open>Conversation.reopen\<close> has no guard: whatever the
  current status is, \<open>archived\<close> and \<open>open\<close> included, it sets the status to
  \<open>open\<close>, clears \<open>ended_at\<close>, stamps \<open>updated_at\<close>, and leaves every other field
  as it was.
\<close>

theorem reopen_from_any_status:
  "reopen now c = c\<lparr>conv_status := Open, ended_at := None, conv_updated_at := Some now\<rparr>
   \<and> conv_status (reopen now c) = Open
   \<and> ended_at (reopen now c) = None
   \<and> conv_status (reopen now (c\<lparr>conv_status := Archived\<rparr>)) = Open
   \<and> conv_status (reopen now (c\<lparr>conv_status := Closed\<rparr>)) = Open
   \<and> conv_id (reopen now c) = conv_id c
   \<and> message_count (reopen now c) = message_count c"
  by (simp add: reopen_def)

text \<open>
  Claim C8 as stated fails: \<open>Conversation.reopen\<close> moves an archived conversation to
  \<open>open\<close>.
\<close>

theorem reopen_archived_conversation:
  "conv_status conversation0 = Archived
   \<and> conv_status (reopen 9 conversation0) = Open"
  by (simp add: reopen_def conversation0_def)

section \<open>Processing an inbound message\<close>

lemma set_webhook_event_processed_tables:
  "messages (set_webhook_event_processed now s wid) = messages s"
  "conversations (set_webhook_event_processed now s wid) = conversations s"
  "chatbots (set_webhook_event_processed now s wid) = chatbots s"
  "next_id (set_webhook_event_processed now s wid) = next_id s"
  by (simp_all add: set_webhook_event_processed_def split: option.splits)




lemma find_or_create_conversation_ok:
  assumes "customer \<noteq> None"
  shows "\<exists>conversation s2. find_or_create_conversation now s chatbot customer
             = Inr (conversation, s2)
           \<and> messages s2 = messages s \<and> webhook_events s2 = webhook_events s"
  using assms
  by (auto simp: find_or_create_conversation_def flush_conversation_def Conversation_init_def
        track_event_def Let_def split: option.splits)

lemma inbound_message_data_fields:
  "md_whatsapp_message_id (inbound_message_data e event) = ev_message_id event"
  "md_direction (inbound_message_data e event) = Inbound"
  by (simp_all add: inbound_message_data_def Let_def)

lemma await_process_whatsapp_message_unfold:
  assumes "find (\<lambda>b. whatsapp_phone_number_id b = ev_phone_number_id event \<and> cb_status b = Active)
             (chatbots s) = Some chatbot"
    and "find_or_create_conversation now s chatbot (ev_from event) = Inr (conversation, s2)"
  shows "await_process_whatsapp_message e now s event wid
           = Inr (set_webhook_event_processed now
                    (track_event
                       (snd (add_message now s2 conversation (inbound_message_data e event)))
                       (cb_company_id chatbot) (str ''message_received'') (Some (cb_id chatbot)))
                    wid)"
  using assms
  by (simp add: await_process_whatsapp_message_def Let_def split_beta split: sum.splits)

lemma add_message_messages:
  "\<exists>m. messages (snd (add_message now s c md)) = messages s @ [m]
       \<and> whatsapp_message_id m = md_whatsapp_message_id md \<and> direction m = md_direction md
       \<and> conversation_id m = conv_id c"
  by (simp add: add_message_def session_add_message_def Message_init_def Let_def)

lemma add_message_webhook_events:
  "webhook_events (snd (add_message now s c md)) = webhook_events s"
  by (simp add: add_message_def session_add_message_def Let_def)

lemma await_process_whatsapp_message_persists:
  assumes "find (\<lambda>b. whatsapp_phone_number_id b = ev_phone_number_id event \<and> cb_status b = Active)
             (chatbots s) = Some chatbot"
    and "ev_from event \<noteq> None"
  shows "\<exists>s' s1 m. await_process_whatsapp_message e now s event wid
                      = Inr (set_webhook_event_processed now s1 wid)
           \<and> s' = set_webhook_event_processed now s1 wid
           \<and> webhook_events s1 = webhook_events s
           \<and> messages s' = messages s @ [m]
           \<and> whatsapp_message_id m = ev_message_id event \<and> direction m = Inbound"
proof -
  obtain conversation s2 where r: "find_or_create_conversation now s chatbot (ev_from event)
      = Inr (conversation, s2)" and m2: "messages s2 = messages s"
    and w2: "webhook_events s2 = webhook_events s"
    using find_or_create_conversation_ok [OF assms(2)] by blast
  define md where "md = inbound_message_data e event"
  have a: "await_process_whatsapp_message e now s event wid
           = Inr (set_webhook_event_processed now
                    (track_event (snd (add_message now s2 conversation md))
                       (cb_company_id chatbot) (str ''message_received'') (Some (cb_id chatbot)))
                    wid)"
    unfolding md_def by (rule await_process_whatsapp_message_unfold [OF assms(1) r])
  have md: "md_whatsapp_message_id md = ev_message_id event" "md_direction md = Inbound"
    by (simp_all add: md_def inbound_message_data_fields)
  obtain m where m: "messages (snd (add_message now s2 conversation md)) = messages s2 @ [m]"
    "whatsapp_message_id m = md_whatsapp_message_id md" "direction m = md_direction md"
    using add_message_messages by blast
  let ?s1 = "track_event (snd (add_message now s2 conversation md))
               (cb_company_id chatbot) (str ''message_received'') (Some (cb_id chatbot))"
  have "webhook_events ?s1 = webhook_events s"
    by (simp add: track_event_def add_message_webhook_events w2)
  moreover have "messages (set_webhook_event_processed now ?s1 wid) = messages s @ [m]"
    by (simp add: set_webhook_event_processed_tables track_event_def m m2)
  ultimately show ?thesis using a m md by auto
qed



text \<open>
  Claim C1, as the code has it. Processing a \<open>message_received\<close> event for which an
  active chatbot is bound (and whose sender is named) never skips persistence: it adds
  exactly one inbound Message carrying the event's external message id, whether or not
  a Message with that id is already persisted, so the number of Messages with that id
  grows by one on every delivery.
\<close>

theorem redelivery_adds_a_message:
  assumes "find (\<lambda>b. whatsapp_phone_number_id b = ev_phone_number_id event \<and> cb_status b = Active)
             (chatbots s) = Some chatbot"
    and "ev_from event \<noteq> None"
  shows "\<exists>s' m. await_process_whatsapp_message e now s event wid = Inr s'
           \<and> messages s' = messages s @ [m]
           \<and> whatsapp_message_id m = ev_message_id event \<and> direction m = Inbound
           \<and> length (filter (\<lambda>m. whatsapp_message_id m = ev_message_id event) (messages s'))
               = Suc (length (filter (\<lambda>m. whatsapp_message_id m = ev_message_id event)
                                (messages s)))"
proof -
  obtain s' m where "await_process_whatsapp_message e now s event wid = Inr s'"
    "messages s' = messages s @ [m]" "whatsapp_message_id m = ev_message_id event"
    "direction m = Inbound"
    using await_process_whatsapp_message_persists [OF assms] by metis
  then show ?thesis by auto
qed

theorem redelivery_adds_a_message_witness:
  "\<exists>s' m. await_process_whatsapp_message env0 9 db1 event1 None = Inr s'
         \<and> messages s' = messages db1 @ [m]
         \<and> whatsapp_message_id m = ev_message_id event1 \<and> direction m = Inbound
         \<and> length (filter (\<lambda>m. whatsapp_message_id m = ev_message_id event1) (messages s'))
             = Suc (length (filter (\<lambda>m. whatsapp_message_id m = ev_message_id event1)
                              (messages db1)))"
  by (rule redelivery_adds_a_message [where chatbot = chatbot0])
     (simp_all add: db1_def event1_def event0_def chatbot0_def)

text \<open>
  Claim C1 as stated fails: the same \<open>message_received\<close> event processed twice leaves
  two persisted Messages with its external message id.
\<close>

theorem redelivery_persists_twice:
  "external_ids after_redelivery = [Some (str ''wamid.1''), Some (str ''wamid.1'')]"
  by (simp add: external_ids_def after_redelivery_def after_first_delivery_def
        await_process_whatsapp_message_def find_or_create_conversation_def
        inbound_message_data_def flush_conversation_def Conversation_init_def
        track_event_def add_message_def session_add_message_def Message_init_def
        set_webhook_event_processed_def query_get_webhook_event_def default_to_def
        dict_get_def truthy_def forward_to_botpress_def
        env0_def db0_def event0_def chatbot0_def webhook_event0_def Let_def)



section \<open>The inbound-channel webhook endpoint\<close>


lemma processing_error_is_raised:
  "await_process_whatsapp_message env0 1 db0 (event0\<lparr>ev_from := None\<rparr>) None
     = Inl IntegrityError"
  by (simp add: await_process_whatsapp_message_def find_or_create_conversation_def
        flush_conversation_def Conversation_init_def env0_def db0_def event0_def
        chatbot0_def Let_def)

text \<open>
  As the code stands, recording a sub-event raises before any processing: the handler
  calls \<open>WebhookEvent\<close> without the required \<open>payload\<close>. So every delivery with at
  least one sub-event is answered with 500 and leaves the tables as they were.
\<close>

lemma whatsapp_event_step_raises:
  "whatsapp_event_step e now s event = Inl TypeError"
  by (simp add: whatsapp_event_step_def WebhookEvent_init_def)

lemma handle_whatsapp_webhook_nonempty:
  "handle_whatsapp_webhook e now db (Inr (event # events))
     = ((JsonError ''Webhook processing failed'', 500), db)"
  by (simp add: handle_whatsapp_webhook_def whatsapp_event_step_raises)




section \<open>The bot-backend webhook endpoint\<close>


lemma validate_webhook_signature_False:
  "(validate_webhook_signature e pl sg secret = Inr False)
     = (list_all (\<lambda>c. c < 128) sg
        \<and> list_all (\<lambda>c. c < 128) (hmac_sha256_hexdigest e secret pl)
        \<and> sg \<noteq> str ''sha256='' @ hmac_sha256_hexdigest e secret pl)"
proof -
  have ascii: "list_all (\<lambda>c. c < 128) (str ''sha256='')"
    by (simp add: str_def ord_def)
  show ?thesis
    using ascii by (auto simp: validate_webhook_signature_def compare_digest_def Let_def)
qed

lemma handle_botpress_webhook_403:
  "(handle_botpress_webhook e now webhook_secret db signature pl parsed
      = ((JsonError ''Invalid signature'', 403), db))
     = ((\<exists>wd. parsed = Inr wd) \<and> truthy signature \<and> truthy webhook_secret
        \<and> validate_webhook_signature e pl (the signature) (the webhook_secret) = Inr False)"
proof (cases parsed)
  case (Inl err)
  then show ?thesis by (simp add: handle_botpress_webhook_def)
next
  case (Inr wd)
  show ?thesis
  proof (cases "truthy signature \<and> truthy webhook_secret")
    case False
    then show ?thesis
      using Inr by (auto simp: handle_botpress_webhook_def split: sum.splits)
  next
    case True
    show ?thesis
    proof (cases "validate_webhook_signature e pl (the signature) (the webhook_secret)")
      case (Inl err)
      then show ?thesis using Inr True by (simp add: handle_botpress_webhook_def)
    next
      case r: (Inr b)
      then show ?thesis
        using Inr True by (cases b) (auto simp: handle_botpress_webhook_def split: sum.splits)
    qed
  qed
qed

lemma handle_botpress_webhook_status_403:
  "(snd (fst (handle_botpress_webhook e now webhook_secret db signature pl parsed)) = 403)
     = (handle_botpress_webhook e now webhook_secret db signature pl parsed
          = ((JsonError ''Invalid signature'', 403), db))"
  by (auto simp: handle_botpress_webhook_def split: sum.splits bool.splits)

text \<open>
  Claim C6, as the code has it. The endpoint answers 403 exactly when the body was
  read, the signature header is present and not empty, a secret is configured and not
  empty, and the signature check returns false; then nothing is recorded or processed.
  The check returns false exactly for a signature of ASCII characters that differs from
  \<open>sha256=\<close> followed by the HMAC of the body. So a request with no signature header,
  or an empty one, is not checked and is never answered with 403, whether or not a
  secret is configured.
\<close>

theorem botpress_signature_check:
  "(handle_botpress_webhook e now webhook_secret db signature pl parsed
      = ((JsonError ''Invalid signature'', 403), db))
     = ((\<exists>wd. parsed = Inr wd) \<and> truthy signature \<and> truthy webhook_secret
        \<and> validate_webhook_signature e pl (the signature) (the webhook_secret) = Inr False)
   \<and> (snd (fst (handle_botpress_webhook e now webhook_secret db signature pl parsed)) = 403)
     = (handle_botpress_webhook e now webhook_secret db signature pl parsed
          = ((JsonError ''Invalid signature'', 403), db))
   \<and> (validate_webhook_signature e pl sg secret = Inr False)
     = (list_all (\<lambda>c. c < 128) sg
        \<and> list_all (\<lambda>c. c < 128) (hmac_sha256_hexdigest e secret pl)
        \<and> sg \<noteq> str ''sha256='' @ hmac_sha256_hexdigest e secret pl)
   \<and> (\<not> truthy signature
    \<longrightarrow> snd (fst (handle_botpress_webhook e now webhook_secret db signature pl parsed))
          \<noteq> 403)"
  using handle_botpress_webhook_403 [of e now webhook_secret db signature pl parsed]
    handle_botpress_webhook_status_403 [of e now webhook_secret db signature pl parsed]
    validate_webhook_signature_False [of e pl sg secret]
  by blast

theorem botpress_signature_check_witness:
  "handle_botpress_webhook env0 1 (Some (str ''s3cret'')) db0 (Some (str ''sha256=bad''))
     (str ''{}'') (Inr (Some bp_data0)) = ((JsonError ''Invalid signature'', 403), db0)
   \<and> \<not> truthy None
   \<and> snd (fst (handle_botpress_webhook env0 1 (Some (str ''s3cret'')) db0 None
                  (str ''{}'') (Inr (Some bp_data0)))) \<noteq> 403"
proof -
  have a: "list_all (\<lambda>c. c < 128) (str ''sha256=bad'')"
    "list_all (\<lambda>c. c < 128) (hmac_sha256_hexdigest env0 (str ''s3cret'') (str ''{}''))"
    "str ''sha256=bad'' \<noteq> str ''sha256='' @ hmac_sha256_hexdigest env0 (str ''s3cret'') (str ''{}'')"
    by (simp_all add: str_def ord_def env0_def)
  have b: "\<not> truthy None" "truthy (Some (str ''s3cret''))" "truthy (Some (str ''sha256=bad''))"
    by (simp_all add: truthy_def)
  have c: "the (Some (str ''sha256=bad'')) = str ''sha256=bad''"
    "the (Some (str ''s3cret'')) = str ''s3cret''"
    by simp_all
  have d: "\<exists>wd. (Inr (Some bp_data0) :: error + bp_webhook_data option) = Inr wd"
    by simp
  note th1 = botpress_signature_check
         [where signature = "Some (str ''sha256=bad'')" and sg = "str ''sha256=bad''"
            and webhook_secret = "Some (str ''s3cret'')" and secret = "str ''s3cret''"
            and e = env0 and pl = "str ''{}''" and now = 1 and db = db0
            and parsed = "Inr (Some bp_data0)"]
  note th2 = botpress_signature_check
         [where signature = None and sg = "str ''sha256=bad''"
            and webhook_secret = "Some (str ''s3cret'')" and secret = "str ''s3cret''"
            and e = env0 and pl = "str ''{}''" and now = 1 and db = db0
            and parsed = "Inr (Some bp_data0)"]
  from th1 a have v: "validate_webhook_signature env0 (str ''{}'') (str ''sha256=bad'')
      (str ''s3cret'') = Inr False"
    by blast
  from th1 v b d have r1: "handle_botpress_webhook env0 1 (Some (str ''s3cret'')) db0
      (Some (str ''sha256=bad'')) (str ''{}'') (Inr (Some bp_data0))
      = ((JsonError ''Invalid signature'', 403), db0)"
    unfolding c by blast
  from th2 b have r2: "snd (fst (handle_botpress_webhook env0 1 (Some (str ''s3cret'')) db0
      None (str ''{}'') (Inr (Some bp_data0)))) \<noteq> 403"
    by blast
  from r1 b(1) r2 show ?thesis
    by (intro conjI)
qed

text \<open>
  Claim C6 as stated fails: with a secret configured, a request without a signature
  header is not answered with 403.
\<close>

theorem botpress_missing_signature_not_rejected:
  "handle_botpress_webhook env0 1 (Some (str ''s3cret'')) db0 None (str ''{}'')
     (Inr (Some bp_data0))
     = ((JsonError ''Webhook processing failed'', 500), db0)"
  by (simp add: handle_botpress_webhook_def truthy_def record_and_process_botpress_def
        process_webhook_event_def WebhookEvent_init_def Let_def)
section \<open>The message counter\<close>






























end
